theory Spec2Isabelle
  imports Main
begin

section \<open>Configuration\<close>

text \<open>The two constants at the top of \<^verbatim>\<open>interface.js\<close>.\<close>

definition PALETTES_FILE :: string where
  "PALETTES_FILE = ''pallets.json''"

definition BUTTONS_CONTAINER_ID :: string where
  "BUTTONS_CONTAINER_ID = ''palette-selector''"

section \<open>JavaScript values and exceptions\<close>

text \<open>
  The values \<^verbatim>\<open>response.json()\<close> can deliver, together with \<^verbatim>\<open>undefined\<close>
  (what reading an absent property gives). A number is represented by the string that
  converting it gives (\<^verbatim>\<open>String(n)\<close>): the program does nothing else with one. An
  object is the list of its own properties.
\<close>

datatype jsval =
    JUndefined
  | JNull
  | JBool bool
  | JNum string
  | JStr string
  | JArr "jsval list"
  | JObj "(string \<times> jsval) list"

text \<open>
  What the program can throw: a \<^verbatim>\<open>TypeError\<close> (a property of \<^verbatim>\<open>null\<close> or
  \<^verbatim>\<open>undefined\<close> is read, something that is not a function is called, or a value
  cannot be converted to a string), a \<^verbatim>\<open>SyntaxError\<close> (the body is not JSON), and
  the \<^verbatim>\<open>Error\<close> built at line 81, whose message holds the file, the number of
  attempts, and the status and status text of the last response. \<open>NetworkError\<close> stands
  for any other rejection of \<^verbatim>\<open>fetch\<close>.
\<close>

datatype error =
    TypeError
  | SyntaxError
  | NetworkError
  | FailedToFetch string nat nat string

text \<open>
  Reading one of the properties \<^verbatim>\<open>name\<close>, \<^verbatim>\<open>primary\<close>, \<^verbatim>\<open>secondary\<close>,
  \<^verbatim>\<open>text\<close>, \<^verbatim>\<open>background\<close>: it throws on \<^verbatim>\<open>null\<close> and \<^verbatim>\<open>undefined\<close>,
  gives the own property of an object, and \<^verbatim>\<open>undefined\<close> otherwise (no prototype
  defines any of the five).
\<close>

fun getProp :: "jsval \<Rightarrow> string \<Rightarrow> error + jsval" where
  "getProp JUndefined k = Inl TypeError"
| "getProp JNull k = Inl TypeError"
| "getProp (JObj props) k = Inr (case map_of props k of None \<Rightarrow> JUndefined | Some v \<Rightarrow> v)"
| "getProp v k = Inr JUndefined"

text \<open>
  The conversion of a value to a string (\<^verbatim>\<open>ToString\<close> of the language). An array is
  joined with commas, \<^verbatim>\<open>null\<close> and \<^verbatim>\<open>undefined\<close> elements giving the empty string.
  An object without an own \<^verbatim>\<open>toString\<close> gives \<^verbatim>\<open>[object Object]\<close>. An object
  with one cannot be converted: the own property hides the inherited method and is not
  callable, and \<^verbatim>\<open>valueOf\<close>, own or inherited, yields no primitive either, so the
  conversion throws.
\<close>

fun ToString :: "jsval \<Rightarrow> error + string"
  and joinElements :: "jsval list \<Rightarrow> error + string" where
  "ToString JUndefined = Inr ''undefined''"
| "ToString JNull = Inr ''null''"
| "ToString (JBool b) = Inr (if b then ''true'' else ''false'')"
| "ToString (JNum n) = Inr n"
| "ToString (JStr s) = Inr s"
| "ToString (JArr vs) = joinElements vs"
| "ToString (JObj props) =
     (case map_of props ''toString'' of
        None \<Rightarrow> Inr ''[object Object]''
      | Some f \<Rightarrow> Inl TypeError)"
| "joinElements [] = Inr []"
| "joinElements (v # vs) =
     (case (if v = JUndefined \<or> v = JNull then Inr [] else ToString v) of
        Inl e \<Rightarrow> Inl e
      | Inr s \<Rightarrow>
          if vs = [] then Inr s
          else (case joinElements vs of Inl e \<Rightarrow> Inl e | Inr t \<Rightarrow> Inr (s @ '','' @ t)))"

text \<open>
  The two conversions the page's interfaces apply to what they are handed. The value of
  \<^verbatim>\<open>setProperty\<close> and of a style attribute: \<^verbatim>\<open>null\<close> becomes the empty string,
  anything else is converted. The value of \<^verbatim>\<open>textContent\<close>: \<^verbatim>\<open>null\<close> and
  \<^verbatim>\<open>undefined\<close> both give the empty text.
\<close>

definition nullToEmptyString :: "jsval \<Rightarrow> error + string" where
  "nullToEmptyString v = (if v = JNull then Inr [] else ToString v)"

definition nullableString :: "jsval \<Rightarrow> error + string" where
  "nullableString v = (if v = JUndefined \<or> v = JNull then Inr [] else ToString v)"

section \<open>The environment: network and page\<close>

text \<open>
  A response as far as the program reads it: \<^verbatim>\<open>ok\<close>, \<^verbatim>\<open>status\<close>,
  \<^verbatim>\<open>statusText\<close>, and what \<^verbatim>\<open>json()\<close> resolves or rejects with.
\<close>

record response =
  ok :: bool
  status :: nat
  statusText :: string
  json :: "error + jsval"

text \<open>One call of \<^verbatim>\<open>fetch\<close> either rejects (transport error) or resolves with a response.\<close>

datatype fetch_result = Rejected error | Resolved response

text \<open>The network answers the attempt with loop index \<open>i\<close> by \<open>net i\<close>.\<close>

type_synonym network = "nat \<Rightarrow> fetch_result"

text \<open>
  A button as \<^verbatim>\<open>createPaletteButtons\<close> builds it. \<open>textContent\<close> is its text.
  \<open>backgroundColor\<close>, \<open>color\<close>, \<open>borderColor\<close> and \<open>borderWidth\<close> are the strings handed
  to its style (whether the browser takes such a string for a colour is not modelled).
  The click listener is the closure \<^verbatim>\<open>() => applyPalette(palette)\<close>; it is represented
  by the palette it has captured.
\<close>

record button =
  textContent :: string
  className :: string
  backgroundColor :: string
  color :: string
  borderColor :: string
  borderWidth :: string
  onclick :: jsval

text \<open>A child of the container: a button, or a paragraph with its class and text.\<close>

datatype node = Button button | Paragraph string string

text \<open>
  What is written to the console: the palette name that follows
  \<^verbatim>\<open>Applied palette: \<close>, the id of the missing container, or the error handed to
  \<^verbatim>\<open>console.error\<close> at line 88.
\<close>

datatype console_entry =
    AppliedPalette string
  | ContainerNotFound string
  | LoadingError error

datatype event = Fetched string | Waited nat

text \<open>
  The state the program acts on. \<open>container\<close> is the list of children of the element
  with id \<open>BUTTONS_CONTAINER_ID\<close>, or \<open>None\<close> when \<^verbatim>\<open>getElementById\<close> returns
  \<^verbatim>\<open>null\<close>. \<open>rootStyle\<close> is the inline style declaration of the root element: the
  properties it declares, each with its value. \<open>console\<close> is what was written to the
  console, \<open>timeline\<close> the network calls and timed waits, both in order.
\<close>

record world =
  container :: "node list option"
  rootStyle :: "string \<rightharpoonup> string"
  console :: "console_entry list"
  timeline :: "event list"

text \<open>
  \<^verbatim>\<open>style.setProperty(name, value)\<close> for a custom property: the value is converted
  first, which can throw; the empty string removes the declaration; any other string
  becomes the declared value (the browser's check of the value's syntax is not
  modelled).
\<close>

definition setProperty :: "string \<Rightarrow> jsval \<Rightarrow> world \<Rightarrow> (error + unit) \<times> world" where
  "setProperty name v w =
     (case nullToEmptyString v of
        Inl e \<Rightarrow> (Inl e, w)
      | Inr s \<Rightarrow>
          (Inr (), w\<lparr>rootStyle := (rootStyle w)(name := (if s = [] then None else Some s))\<rparr>))"

definition consoleWrite :: "console_entry \<Rightarrow> world \<Rightarrow> world" where
  "consoleWrite entry w = w\<lparr>console := console w @ [entry]\<rparr>"

definition appendChild :: "node \<Rightarrow> world \<Rightarrow> world" where
  "appendChild n w = w\<lparr>container := map_option (\<lambda>children. children @ [n]) (container w)\<rparr>"

definition record_event :: "event \<Rightarrow> world \<Rightarrow> world" where
  "record_event ev w = w\<lparr>timeline := timeline w @ [ev]\<rparr>"

text \<open>Statements in sequence: the second runs in the state the first leaves, unless that one threw.\<close>

definition andThen ::
  "(error + unit) \<times> world \<Rightarrow> (world \<Rightarrow> (error + unit) \<times> world) \<Rightarrow> (error + unit) \<times> world" where
  "andThen first second = (case first of (Inl e, w) \<Rightarrow> (Inl e, w) | (Inr u, w) \<Rightarrow> second w)"

section \<open>applyPalette\<close>

text \<open>
  One of the lines 16 to 19: the property of the palette is read, then handed to
  \<^verbatim>\<open>setProperty\<close>.
\<close>

definition setVariable :: "string \<Rightarrow> jsval \<Rightarrow> string \<Rightarrow> world \<Rightarrow> (error + unit) \<times> world" where
  "setVariable name palette key w =
     (case getProp palette key of
        Inl e \<Rightarrow> (Inl e, w)
      | Inr v \<Rightarrow> setProperty name v w)"

text \<open>Line 22: the name is read and converted inside the template literal, then logged.\<close>

definition logApplied :: "jsval \<Rightarrow> world \<Rightarrow> (error + unit) \<times> world" where
  "logApplied palette w =
     (case getProp palette ''name'' of
        Inl e \<Rightarrow> (Inl e, w)
      | Inr n \<Rightarrow>
          (case ToString n of
             Inl e \<Rightarrow> (Inl e, w)
           | Inr s \<Rightarrow> (Inr (), consoleWrite (AppliedPalette s) w)))"

text \<open>Lines 13 to 23: the four lines in the source's order, then the log.\<close>

definition applyPalette :: "jsval \<Rightarrow> world \<Rightarrow> (error + unit) \<times> world" where
  "applyPalette palette w =
     andThen (setVariable ''--color-primary'' palette ''primary'' w) (\<lambda>w1.
     andThen (setVariable ''--color-secondary'' palette ''secondary'' w1) (\<lambda>w2.
     andThen (setVariable ''--color-text'' palette ''text'' w2) (\<lambda>w3.
     andThen (setVariable ''--color-background'' palette ''background'' w3) (\<lambda>w4.
     logApplied palette w4))))"

section \<open>createPaletteButtons\<close>

text \<open>
  Lines 41 to 54: the button built for one palette, before it is appended. The name is
  converted for \<^verbatim>\<open>textContent\<close> at line 42, \<^verbatim>\<open>palette.primary\<close> is read and
  converted at line 47 and again at line 48.
\<close>

definition createButton :: "jsval \<Rightarrow> error + button" where
  "createButton palette =
     (case getProp palette ''name'' of Inl e \<Rightarrow> Inl e | Inr n \<Rightarrow>
       (case nullableString n of Inl e \<Rightarrow> Inl e | Inr label \<Rightarrow>
         (case getProp palette ''primary'' of Inl e \<Rightarrow> Inl e | Inr p \<Rightarrow>
           (case nullToEmptyString p of Inl e \<Rightarrow> Inl e | Inr fg \<Rightarrow>
             (case getProp palette ''primary'' of Inl e \<Rightarrow> Inl e | Inr p' \<Rightarrow>
               (case nullToEmptyString p' of Inl e \<Rightarrow> Inl e | Inr border \<Rightarrow>
                  Inr \<lparr>textContent = label,
                       className = ''px-4 py-2 m-1 text-sm font-medium rounded-lg transition-colors duration-200 shadow-md'',
                       backgroundColor = ''white'',
                       color = fg,
                       borderColor = border,
                       borderWidth = ''2px'',
                       onclick = palette\<rparr>))))))"

text \<open>
  \<^verbatim>\<open>palettes.forEach\<close> on the elements of an array: an exception in the callback
  ends the iteration and leaves the buttons appended so far in place.
\<close>

fun forEachPalette :: "jsval list \<Rightarrow> world \<Rightarrow> (error + unit) \<times> world" where
  "forEachPalette [] w = (Inr (), w)"
| "forEachPalette (palette # rest) w =
     (case createButton palette of
        Inl e \<Rightarrow> (Inl e, w)
      | Inr b \<Rightarrow> forEachPalette rest (appendChild (Button b) w))"

text \<open>
  Lines 29 to 63. Only an array has a callable \<^verbatim>\<open>forEach\<close>: on any other value the
  call at line 40 throws, after the container has been cleared.
\<close>

definition createPaletteButtons :: "jsval \<Rightarrow> world \<Rightarrow> (error + unit) \<times> world" where
  "createPaletteButtons palettes w =
     (case container w of
        None \<Rightarrow> (Inr (), consoleWrite (ContainerNotFound BUTTONS_CONTAINER_ID) w)
      | Some old \<Rightarrow>
          let w1 = w\<lparr>container := Some []\<rparr> in
          (case palettes of
             JArr ps \<Rightarrow>
               (case forEachPalette ps w1 of
                  (Inl e, w2) \<Rightarrow> (Inl e, w2)
                | (Inr u, w2) \<Rightarrow>
                    if length ps > 0 then applyPalette (ps ! 0) w2 else (Inr (), w2))
           | _ \<Rightarrow> (Inl TypeError, w1)))"

text \<open>Activating a button runs its listener, \<^verbatim>\<open>applyPalette\<close> on the captured palette.\<close>

definition click :: "button \<Rightarrow> world \<Rightarrow> (error + unit) \<times> world" where
  "click b w = applyPalette (onclick b) w"

section \<open>initializeInterface\<close>

definition maxRetries :: nat where
  "maxRetries = 3"

text \<open>
  Lines 73 to 78, from loop index \<open>i\<close> with the current value of \<^verbatim>\<open>response\<close>
  (\<open>None\<close> while it is still \<^verbatim>\<open>undefined\<close>). A rejected \<^verbatim>\<open>fetch\<close> leaves the
  loop as an exception; a response that is not ok is followed by the wait of
  \<open>2 ^ i * 100\<close> and the next index.
\<close>

function fetchLoop :: "network \<Rightarrow> nat \<Rightarrow> response option \<Rightarrow> world \<Rightarrow> (error + response option) \<times> world" where
  "fetchLoop net i resp w =
     (if i < maxRetries then
        (let w1 = record_event (Fetched PALETTES_FILE) w in
         case net i of
           Rejected e \<Rightarrow> (Inl e, w1)
         | Resolved r \<Rightarrow>
             if ok r then (Inr (Some r), w1)
             else fetchLoop net (i + 1) (Some r) (record_event (Waited (2 ^ i * 100)) w1))
      else (Inr resp, w))"
  by pat_completeness auto
termination
  by (relation "measure (\<lambda>(net, i, resp, w). maxRetries - i)") auto

declare fetchLoop.simps [simp del]

text \<open>Lines 70 to 85, the body of \<^verbatim>\<open>try\<close>.\<close>

definition tryBlock :: "network \<Rightarrow> world \<Rightarrow> (error + unit) \<times> world" where
  "tryBlock net w =
     (case fetchLoop net 0 None w of
        (Inl e, w1) \<Rightarrow> (Inl e, w1)
      | (Inr None, w1) \<Rightarrow> (Inl TypeError, w1)
      | (Inr (Some r), w1) \<Rightarrow>
          if \<not> ok r then
            (Inl (FailedToFetch PALETTES_FILE maxRetries (status r) (statusText r)), w1)
          else
            (case json r of
               Inl e \<Rightarrow> (Inl e, w1)
             | Inr palettes \<Rightarrow> createPaletteButtons palettes w1))"

definition errorMessage :: node where
  "errorMessage =
     Paragraph ''text-red-600 text-sm'' ''Error loading color palettes. Check console for details.''"

text \<open>Lines 87 to 95, the handler.\<close>

definition catchBlock :: "error \<Rightarrow> world \<Rightarrow> (error + unit) \<times> world" where
  "catchBlock e w =
     (let w1 = consoleWrite (LoadingError e) w in
      case container w1 of
        None \<Rightarrow> (Inr (), w1)
      | Some old \<Rightarrow> (Inr (), w1\<lparr>container := Some [errorMessage]\<rparr>))"

definition initializeInterface :: "network \<Rightarrow> world \<Rightarrow> (error + unit) \<times> world" where
  "initializeInterface net w =
     (case tryBlock net w of
        (Inl e, w1) \<Rightarrow> catchBlock e w1
      | (Inr u, w1) \<Rightarrow> (Inr u, w1))"

section \<open>Notions used to state the properties\<close>

definition nullish :: "jsval \<Rightarrow> bool" where
  "nullish v = (v = JUndefined \<or> v = JNull)"

text \<open>
  A structurally valid palette (sections 3 and 6 of the specification): an object whose
  \<^verbatim>\<open>name\<close>, \<^verbatim>\<open>primary\<close>, \<^verbatim>\<open>secondary\<close>, \<^verbatim>\<open>text\<close> and
  \<^verbatim>\<open>background\<close> are strings. Nothing is asked of what the strings contain.
\<close>

definition isString :: "jsval \<Rightarrow> bool" where
  "isString v = (case v of JStr s \<Rightarrow> True | _ \<Rightarrow> False)"

definition validPalette :: "jsval \<Rightarrow> bool" where
  "validPalette p =
     (case p of
        JObj props \<Rightarrow>
          list_all (\<lambda>k. case map_of props k of None \<Rightarrow> False | Some v \<Rightarrow> isString v)
            [''name'', ''primary'', ''secondary'', ''text'', ''background'']
      | _ \<Rightarrow> False)"

text \<open>The string a palette holds in a field (the empty string where it holds none).\<close>

definition stringField :: "jsval \<Rightarrow> string \<Rightarrow> string" where
  "stringField p k = (case getProp p k of Inr (JStr s) \<Rightarrow> s | _ \<Rightarrow> [])"

text \<open>
  What a style variable holds after \<^verbatim>\<open>setProperty\<close> was handed the string \<open>s\<close>:
  the string itself, or nothing (the variable is no longer declared) when \<open>s\<close> is empty.
\<close>

definition declared :: "string \<Rightarrow> string option" where
  "declared s = (if s = [] then None else Some s)"

text \<open>
  The active theme is what the four global style variables hold, in the order primary,
  secondary, text, background; the theme of a palette is what its four colour values
  make them hold, in the same order.
\<close>

definition themeVariables :: "string list" where
  "themeVariables =
     [''--color-primary'', ''--color-secondary'', ''--color-text'', ''--color-background'']"

definition activeTheme :: "world \<Rightarrow> string option list" where
  "activeTheme w = map (rootStyle w) themeVariables"

definition paletteTheme :: "jsval \<Rightarrow> string option list" where
  "paletteTheme p =
     map (\<lambda>k. declared (stringField p k)) [''primary'', ''secondary'', ''text'', ''background'']"

text \<open>The state after a structurally valid palette has been applied.\<close>

definition themed :: "jsval \<Rightarrow> world \<Rightarrow> world" where
  "themed p w =
     w\<lparr>rootStyle := (rootStyle w)
          (''--color-primary'' := declared (stringField p ''primary''),
           ''--color-secondary'' := declared (stringField p ''secondary''),
           ''--color-text'' := declared (stringField p ''text''),
           ''--color-background'' := declared (stringField p ''background'')),
       console := console w @ [AppliedPalette (stringField p ''name'')]\<rparr>"

text \<open>The button of a structurally valid palette.\<close>

definition paletteButton :: "jsval \<Rightarrow> button" where
  "paletteButton p =
     \<lparr>textContent = stringField p ''name'',
      className = ''px-4 py-2 m-1 text-sm font-medium rounded-lg transition-colors duration-200 shadow-md'',
      backgroundColor = ''white'',
      color = stringField p ''primary'',
      borderColor = stringField p ''primary'',
      borderWidth = ''2px'',
      onclick = p\<rparr>"

text \<open>
  A step of the program that acts on every state in the same way: it has one outcome,
  overrides the root style at the properties in the domain of \<open>U\<close> (with a value, or
  by removing the declaration), adds the entries \<open>L\<close> to the console and leaves the
  rest of the state alone.
\<close>

definition overridden :: "(string \<rightharpoonup> string option) \<Rightarrow> (string \<rightharpoonup> string) \<Rightarrow> (string \<rightharpoonup> string)" where
  "overridden U m = (\<lambda>k. case U k of None \<Rightarrow> m k | Some d \<Rightarrow> d)"

definition behaves ::
  "(world \<Rightarrow> (error + unit) \<times> world) \<Rightarrow> error + unit \<Rightarrow> (string \<rightharpoonup> string option)
     \<Rightarrow> console_entry list \<Rightarrow> bool" where
  "behaves f out U L =
     (\<forall>w. f w = (out, w\<lparr>rootStyle := overridden U (rootStyle w), console := console w @ L\<rparr>))"

text \<open>
  Such a step that touches no style property but the four theme variables: one that
  writes nothing to the console, and one that writes only when it returns normally.
\<close>

definition silent :: "(world \<Rightarrow> (error + unit) \<times> world) \<Rightarrow> bool" where
  "silent f = (\<exists>out U. behaves f out U [] \<and> dom U \<subseteq> set themeVariables)"

definition tidy :: "(world \<Rightarrow> (error + unit) \<times> world) \<Rightarrow> bool" where
  "tidy f =
     (\<exists>out U L. behaves f out U L \<and> dom U \<subseteq> set themeVariables
        \<and> (isl out \<longrightarrow> L = []))"

text \<open>The buttons the iteration appends, one per element up to the first that throws, and its outcome.\<close>

fun builtButtons :: "jsval list \<Rightarrow> node list" where
  "builtButtons [] = []"
| "builtButtons (p # ps) =
     (case createButton p of Inl e \<Rightarrow> [] | Inr b \<Rightarrow> Button b # builtButtons ps)"

fun forEachOutcome :: "jsval list \<Rightarrow> error + unit" where
  "forEachOutcome [] = Inr ()"
| "forEachOutcome (p # ps) =
     (case createButton p of Inl e \<Rightarrow> Inl e | Inr b \<Rightarrow> forEachOutcome ps)"

text \<open>What a timeline shows: the number of network calls, and the waits in order.\<close>

fun attempts :: "event list \<Rightarrow> nat" where
  "attempts [] = 0"
| "attempts (Fetched f # es) = Suc (attempts es)"
| "attempts (Waited n # es) = attempts es"

fun waits :: "event list \<Rightarrow> nat list" where
  "waits [] = []"
| "waits (Fetched f # es) = waits es"
| "waits (Waited n # es) = n # waits es"

text \<open>
  The attempt with index \<open>j\<close> fails by status: a response arrives and is not ok. It
  fails: it fails by status, or the call is rejected.
\<close>

definition failsByStatus :: "network \<Rightarrow> nat \<Rightarrow> bool" where
  "failsByStatus net j = (case net j of Rejected e \<Rightarrow> False | Resolved r \<Rightarrow> \<not> ok r)"

definition attemptFails :: "network \<Rightarrow> nat \<Rightarrow> bool" where
  "attemptFails net j = (case net j of Rejected e \<Rightarrow> True | Resolved r \<Rightarrow> \<not> ok r)"

definition responseAt :: "network \<Rightarrow> nat \<Rightarrow> response option" where
  "responseAt net j = (case net j of Rejected e \<Rightarrow> None | Resolved r \<Rightarrow> Some r)"

text \<open>
  The error the handler receives when the last attempt has the given result and is a
  failure: the rejection itself, or the error of line 81 with the response's status.
\<close>

definition reportedFailure :: "fetch_result \<Rightarrow> error" where
  "reportedFailure result =
     (case result of
        Rejected e \<Rightarrow> e
      | Resolved r \<Rightarrow> FailedToFetch PALETTES_FILE maxRetries (status r) (statusText r))"

text \<open>
  What the loop does for the attempts \<open>i\<close> up to \<open>k\<close> (excluded) when they all fail by
  status: each is a network call followed by its wait.
\<close>

definition backoff :: "nat \<Rightarrow> nat \<Rightarrow> event list" where
  "backoff i k = concat (map (\<lambda>j. [Fetched PALETTES_FILE, Waited (2 ^ j * 100)]) [i..<k])"

subsection \<open>Concrete inputs\<close>

text \<open>The palette of the scenario in section 8 of the specification, and another.\<close>

definition ocean :: jsval where
  "ocean =
     JObj [(''name'', JStr ''Ocean''), (''primary'', JStr ''#006994''),
           (''secondary'', JStr ''#0099cc''), (''text'', JStr ''#ffffff''),
           (''background'', JStr ''#f0f8ff'')]"

definition sunset :: jsval where
  "sunset =
     JObj [(''name'', JStr ''Sunset''), (''primary'', JStr ''#ff4500''),
           (''secondary'', JStr ''#ffa500''), (''text'', JStr ''#222222''),
           (''background'', JStr ''#fff5ee'')]"



text \<open>
  An entry that is not structurally valid: its secondary colour is an object with an own
  \<^verbatim>\<open>toString\<close>, which cannot be converted to a string.
\<close>

definition unconvertible :: jsval where
  "unconvertible =
     JObj [(''name'', JStr ''Broken''), (''primary'', JStr ''#123456''),
           (''secondary'', JObj [(''toString'', JNum ''1'')]), (''text'', JStr ''#ffffff''),
           (''background'', JStr ''#000000'')]"

text \<open>
  A page whose container holds a paragraph left by the host markup, whose root style has
  a theme and one further variable, and where nothing has happened yet.
\<close>

definition page :: world where
  "page =
     \<lparr>container = Some [Paragraph ''hint'' ''Loading palettes''],
      rootStyle = [''--color-primary'' \<mapsto> ''#000000'', ''--color-secondary'' \<mapsto> ''#111111'',
                   ''--color-text'' \<mapsto> ''#eeeeee'', ''--color-background'' \<mapsto> ''#ffffff'',
                   ''--font-size'' \<mapsto> ''16px''],
      console = [],
      timeline = []\<rparr>"

definition notFound :: response where
  "notFound = \<lparr>ok = False, status = 404, statusText = ''Not Found'', json = Inl SyntaxError\<rparr>"

definition unavailable :: response where
  "unavailable = \<lparr>ok = False, status = 503, statusText = ''Service Unavailable'', json = Inl SyntaxError\<rparr>"

definition found :: "jsval \<Rightarrow> response" where
  "found v = \<lparr>ok = True, status = 200, statusText = ''OK'', json = Inr v\<rparr>"

text \<open>Networks: the index of the attempt decides the answer.\<close>

definition always_failing :: network where
  "always_failing i = (if i = 2 then Resolved unavailable else Resolved notFound)"

definition refused_twice_then_dropped :: network where
  "refused_twice_then_dropped i = (if i = 2 then Rejected NetworkError else Resolved notFound)"

definition dropped_then_found :: network where
  "dropped_then_found i = (if i = 0 then Rejected NetworkError else Resolved (found (JArr [ocean])))"

definition refused_then_found :: network where
  "refused_then_found i = (if i = 0 then Resolved unavailable else Resolved (found (JArr [ocean])))"

definition refused_then_dropped :: network where
  "refused_then_dropped i = (if i = 0 then Resolved unavailable else Rejected NetworkError)"

definition found_at_once :: network where
  "found_at_once i = (if i = 0 then Resolved (found (JArr [ocean, sunset])) else Resolved notFound)"

definition found_unconvertible :: network where
  "found_unconvertible i = (if i = 0 then Resolved notFound else Resolved (found (JArr [unconvertible])))"

section \<open>Reading a palette\<close>

lemma getProp_nullish: "nullish p \<Longrightarrow> getProp p k = Inl TypeError"
  by (auto simp: nullish_def)

lemma validPalette_field:
  assumes "validPalette p"
    and "k \<in> set [''name'', ''primary'', ''secondary'', ''text'', ''background'']"
  shows "getProp p k = Inr (JStr (stringField p k))"
  using assms
  by (cases p) (auto simp: validPalette_def stringField_def isString_def split: option.splits jsval.splits)

lemma validPalette_not_nullish: "validPalette p \<Longrightarrow> \<not> nullish p"
  by (cases p) (simp_all add: validPalette_def nullish_def)

section \<open>Applying a palette\<close>

lemma setVariable_valid:
  assumes "validPalette p"
    and "k \<in> set [''name'', ''primary'', ''secondary'', ''text'', ''background'']"
  shows "setVariable name p k w = (Inr (), w\<lparr>rootStyle := (rootStyle w)(name := declared (stringField p k))\<rparr>)"
  by (simp add: setVariable_def validPalette_field [OF assms] setProperty_def nullToEmptyString_def
      declared_def)

lemma logApplied_valid:
  assumes "validPalette p"
  shows "logApplied p w = (Inr (), consoleWrite (AppliedPalette (stringField p ''name'')) w)"
  using validPalette_field [OF assms, of "''name''"] by (simp add: logApplied_def)

lemma applyPalette_themed: "validPalette p \<Longrightarrow> applyPalette p w = (Inr (), themed p w)"
  by (simp add: applyPalette_def setVariable_valid logApplied_valid andThen_def themed_def
      consoleWrite_def)

lemma applyPalette_nullish: "nullish p \<Longrightarrow> applyPalette p w = (Inl TypeError, w)"
  by (simp add: applyPalette_def setVariable_def andThen_def getProp_nullish)

lemma activeTheme_themed: "activeTheme (themed p w) = paletteTheme p"
  by (simp add: activeTheme_def themed_def paletteTheme_def themeVariables_def)

lemma themed_frame:
  "container (themed p w) = container w"
  "timeline (themed p w) = timeline w"
  "k \<notin> set themeVariables \<Longrightarrow> rootStyle (themed p w) k = rootStyle w k"
  by (simp_all add: themed_def themeVariables_def)

subsection \<open>Any palette at all\<close>

lemma overridden_empty: "overridden Map.empty m = m"
  by (simp add: overridden_def)

lemma overridden_twice: "overridden U (overridden U m) = overridden U m"
  by (rule ext) (simp add: overridden_def split: option.splits)

lemma overridden_add: "overridden V (overridden U m) = overridden (U ++ V) m"
  by (rule ext) (simp add: overridden_def map_add_def split: option.splits)

lemma overridden_frame: "k \<notin> dom U \<Longrightarrow> overridden U m k = m k"
  by (auto simp: overridden_def split: option.splits)

lemma silentI:
  assumes "behaves f out U []" and "dom U \<subseteq> set themeVariables"
  shows "silent f"
  unfolding silent_def using assms by blast

lemma tidyI:
  assumes "behaves f out U L" and "dom U \<subseteq> set themeVariables" and "isl out \<longrightarrow> L = []"
  shows "tidy f"
  unfolding tidy_def using assms by blast

lemma silent_setVariable:
  assumes "name \<in> set themeVariables"
  shows "silent (setVariable name p key)"
proof (cases "getProp p key")
  case (Inl e)
  then have "behaves (setVariable name p key) (Inl e) Map.empty []"
    by (simp add: behaves_def setVariable_def overridden_empty)
  then show ?thesis
    by (rule silentI) simp
next
  case (Inr v)
  show ?thesis
  proof (cases "nullToEmptyString v")
    case (Inl e)
    with Inr have "behaves (setVariable name p key) (Inl e) Map.empty []"
      by (simp add: behaves_def setVariable_def setProperty_def overridden_empty)
    then show ?thesis
      by (rule silentI) simp
  next
    case converted: (Inr s)
    have "overridden [name \<mapsto> declared s] m = m(name := declared s)" for m
      by (rule ext) (simp add: overridden_def)
    with Inr converted have "behaves (setVariable name p key) (Inr ()) [name \<mapsto> declared s] []"
      by (simp add: behaves_def setVariable_def setProperty_def declared_def)
    then show ?thesis
      by (rule silentI) (use assms in simp)
  qed
qed

lemma tidy_logApplied: "tidy (logApplied p)"
proof (cases "getProp p ''name''")
  case (Inl e)
  then have "behaves (logApplied p) (Inl e) Map.empty []"
    by (simp add: behaves_def logApplied_def overridden_empty)
  then show ?thesis
    by (rule tidyI) simp_all
next
  case (Inr n)
  show ?thesis
  proof (cases "ToString n")
    case (Inl e)
    with Inr have "behaves (logApplied p) (Inl e) Map.empty []"
      by (simp add: behaves_def logApplied_def overridden_empty)
    then show ?thesis
      by (rule tidyI) simp_all
  next
    case converted: (Inr s)
    with Inr have "behaves (logApplied p) (Inr ()) Map.empty [AppliedPalette s]"
      by (simp add: behaves_def logApplied_def overridden_empty consoleWrite_def)
    then show ?thesis
      by (rule tidyI) simp_all
  qed
qed

lemma tidy_andThen:
  assumes "silent f" and "tidy g"
  shows "tidy (\<lambda>w. andThen (f w) g)"
proof -
  from assms(1) obtain out U
    where f: "behaves f out U []" and U: "dom U \<subseteq> set themeVariables"
    unfolding silent_def by blast
  from assms(2) obtain out' V L
    where g: "behaves g out' V L" and V: "dom V \<subseteq> set themeVariables"
      and L: "isl out' \<longrightarrow> L = []"
    unfolding tidy_def by blast
  show ?thesis
  proof (cases out)
    case (Inl e)
    with f have "behaves (\<lambda>w. andThen (f w) g) (Inl e) U []"
      by (simp add: behaves_def andThen_def)
    then show ?thesis
      using U by (rule tidyI) simp
  next
    case (Inr u)
    with f g have "behaves (\<lambda>w. andThen (f w) g) out' (U ++ V) L"
      by (simp add: behaves_def andThen_def overridden_add)
    then show ?thesis
      by (rule tidyI) (use U V L in auto)
  qed
qed

lemma tidy_applyPalette: "tidy (applyPalette p)"
proof -
  have "applyPalette p =
      (\<lambda>w. andThen (setVariable ''--color-primary'' p ''primary'' w) (\<lambda>w1.
            andThen (setVariable ''--color-secondary'' p ''secondary'' w1) (\<lambda>w2.
            andThen (setVariable ''--color-text'' p ''text'' w2) (\<lambda>w3.
            andThen (setVariable ''--color-background'' p ''background'' w3) (logApplied p)))))"
    by (rule ext) (simp add: applyPalette_def)
  then show ?thesis
    by (simp only:) (intro tidy_andThen silent_setVariable tidy_logApplied; simp add: themeVariables_def)
qed

lemma applyPalette_behaves:
  "\<exists>out U L.
     (\<forall>w. applyPalette p w =
            (out, w\<lparr>rootStyle := overridden U (rootStyle w), console := console w @ L\<rparr>))
     \<and> dom U \<subseteq> set themeVariables \<and> (isl out \<longrightarrow> L = [])"
  using tidy_applyPalette [of p] unfolding tidy_def behaves_def by blast




section \<open>Rendering the controls\<close>

lemma createButton_valid: "validPalette p \<Longrightarrow> createButton p = Inr (paletteButton p)"
  by (simp add: createButton_def validPalette_field nullableString_def nullToEmptyString_def
      paletteButton_def)

lemma forEachPalette_eq:
  "forEachPalette ps w =
     (forEachOutcome ps, w\<lparr>container := map_option (\<lambda>children. children @ builtButtons ps) (container w)\<rparr>)"
proof (induction ps arbitrary: w)
  case Nil
  show ?case by (simp add: option.map_ident)
next
  case (Cons p ps)
  show ?case
  proof (cases "createButton p")
    case (Inl e)
    then show ?thesis
      by (simp add: option.map_ident)
  next
    case (Inr b)
    then show ?thesis
      by (simp add: Cons.IH appendChild_def option.map_comp comp_def)
  qed
qed

lemma builtButtons_valid:
  "list_all validPalette ps \<Longrightarrow> builtButtons ps = map (\<lambda>p. Button (paletteButton p)) ps"
  by (induction ps) (simp_all add: createButton_valid)

lemma forEachOutcome_valid: "list_all validPalette ps \<Longrightarrow> forEachOutcome ps = Inr ()"
  by (induction ps) (simp_all add: createButton_valid)

lemma createPaletteButtons_missing:
  "container w = None \<Longrightarrow>
   createPaletteButtons palettes w = (Inr (), consoleWrite (ContainerNotFound BUTTONS_CONTAINER_ID) w)"
  by (simp add: createPaletteButtons_def)

lemma createPaletteButtons_not_array:
  "container w = Some old \<Longrightarrow> \<forall>ps. palettes \<noteq> JArr ps \<Longrightarrow>
   createPaletteButtons palettes w = (Inl TypeError, w\<lparr>container := Some []\<rparr>)"
  by (cases palettes) (simp_all add: createPaletteButtons_def)

lemma createPaletteButtons_array:
  "container w = Some old \<Longrightarrow>
   createPaletteButtons (JArr ps) w =
     (case forEachOutcome ps of
        Inl e \<Rightarrow> (Inl e, w\<lparr>container := Some (builtButtons ps)\<rparr>)
      | Inr u \<Rightarrow>
          if ps = [] then (Inr (), w\<lparr>container := Some (builtButtons ps)\<rparr>)
          else applyPalette (ps ! 0) (w\<lparr>container := Some (builtButtons ps)\<rparr>))"
  by (simp add: createPaletteButtons_def forEachPalette_eq split: sum.splits)

lemma createPaletteButtons_empty:
  "container w = Some old \<Longrightarrow> createPaletteButtons (JArr []) w = (Inr (), w\<lparr>container := Some []\<rparr>)"
  by (simp add: createPaletteButtons_array)

lemma createPaletteButtons_valid:
  assumes "container w = Some old" and "ps \<noteq> []" and "list_all validPalette ps"
  shows "createPaletteButtons (JArr ps) w =
           (Inr (), themed (ps ! 0) (w\<lparr>container := Some (map (\<lambda>p. Button (paletteButton p)) ps)\<rparr>))"
proof -
  from assms(2,3) have "validPalette (ps ! 0)"
    by (cases ps) simp_all
  with assms show ?thesis
    by (simp add: createPaletteButtons_array forEachOutcome_valid builtButtons_valid
        applyPalette_themed)
qed

text \<open>
  On every page that has the container, a call with given palettes has one outcome,
  leaves the same children, overrides the same theme variables and writes the same
  lines, and nothing else changes.
\<close>

lemma createPaletteButtons_present:
  "\<exists>out cs U L.
     (\<forall>w. container w \<noteq> None \<longrightarrow>
          createPaletteButtons v w =
            (out, w\<lparr>container := Some cs, rootStyle := overridden U (rootStyle w),
                      console := console w @ L\<rparr>))
     \<and> dom U \<subseteq> set themeVariables \<and> (isl out \<longrightarrow> L = [])"
proof (cases "\<exists>ps. v = JArr ps")
  case False
  then have other: "\<forall>ps. v \<noteq> JArr ps"
    by simp
  have "\<forall>w. container w \<noteq> None \<longrightarrow>
      createPaletteButtons v w =
        (Inl TypeError, w\<lparr>container := Some [], rootStyle := overridden Map.empty (rootStyle w),
                            console := console w @ []\<rparr>)"
    using other by (auto simp: createPaletteButtons_not_array overridden_empty)
  moreover have "dom (Map.empty :: string \<rightharpoonup> string option) \<subseteq> set themeVariables"
    by simp
  ultimately show ?thesis
    by blast
next
  case True
  then obtain ps where arr: "v = JArr ps"
    by blast
  have none: "dom (Map.empty :: string \<rightharpoonup> string option) \<subseteq> set themeVariables"
    by simp
  show ?thesis
  proof (cases "forEachOutcome ps")
    case (Inl e)
    have "\<forall>w. container w \<noteq> None \<longrightarrow>
        createPaletteButtons v w =
          (Inl e, w\<lparr>container := Some (builtButtons ps), rootStyle := overridden Map.empty (rootStyle w),
                      console := console w @ []\<rparr>)"
      using Inl by (auto simp: arr createPaletteButtons_array overridden_empty)
    with none show ?thesis
      by blast
  next
    case (Inr u)
    show ?thesis
    proof (cases "ps = []")
      case True
      have "\<forall>w. container w \<noteq> None \<longrightarrow>
          createPaletteButtons v w =
            (Inr (), w\<lparr>container := Some [], rootStyle := overridden Map.empty (rootStyle w),
                         console := console w @ []\<rparr>)"
        using True by (auto simp: arr createPaletteButtons_array overridden_empty)
      moreover have "isl (Inr () :: error + unit) \<longrightarrow> ([] :: console_entry list) = []"
        by simp
      ultimately show ?thesis
        using none by blast
    next
      case False
      from applyPalette_behaves [of "ps ! 0"] obtain out U L
        where run: "\<forall>w. applyPalette (ps ! 0) w =
            (out, w\<lparr>rootStyle := overridden U (rootStyle w), console := console w @ L\<rparr>)"
          and U: "dom U \<subseteq> set themeVariables" and L: "isl out \<longrightarrow> L = []"
        by blast
      have "\<forall>w. container w \<noteq> None \<longrightarrow>
          createPaletteButtons v w =
            (out, w\<lparr>container := Some (builtButtons ps), rootStyle := overridden U (rootStyle w),
                     console := console w @ L\<rparr>)"
        using False Inr by (auto simp: arr createPaletteButtons_array run)
      with U L show ?thesis
        by blast
    qed
  qed
qed

lemma createPaletteButtons_timeline: "timeline (snd (createPaletteButtons v w)) = timeline w"
proof (cases "container w")
  case None
  then show ?thesis
    by (simp add: createPaletteButtons_missing consoleWrite_def)
next
  case (Some old)
  from createPaletteButtons_present [of v] obtain out cs U L
    where "\<forall>w. container w \<noteq> None \<longrightarrow>
        createPaletteButtons v w =
          (out, w\<lparr>container := Some cs, rootStyle := overridden U (rootStyle w),
                   console := console w @ L\<rparr>)"
    by blast
  with Some show ?thesis
    by simp
qed

text \<open>
  C3. On a page that has the container (the precondition of section 4.2), for every
  non-empty sequence \<open>ps\<close> of structurally valid palettes, \<open>createPaletteButtons\<close>
  returns normally and leaves in the container exactly \<open>length ps\<close> children, whatever
  it held before: the \<open>k\<close>-th child is the button built from \<open>ps ! k\<close>, whose text is that
  palette's \<open>name\<close>. The active theme is then the theme of \<open>ps ! 0\<close>, without any click.
\<close>

theorem render_creates_one_control_per_palette:
  assumes "container w = Some old" and "ps \<noteq> []" and "list_all validPalette ps"
  shows "fst (createPaletteButtons (JArr ps) w) = Inr ()
       \<and> (\<exists>children.
             container (snd (createPaletteButtons (JArr ps) w)) = Some children
           \<and> children = map (\<lambda>p. Button (paletteButton p)) ps
           \<and> length children = length ps
           \<and> (\<forall>k<length ps. \<exists>b. children ! k = Button b
                  \<and> textContent b = stringField (ps ! k) ''name''
                  \<and> getProp (ps ! k) ''name'' = Inr (JStr (textContent b))))
       \<and> activeTheme (snd (createPaletteButtons (JArr ps) w)) = paletteTheme (ps ! 0)"
proof -
  have labels: "getProp (ps ! k) ''name'' = Inr (JStr (stringField (ps ! k) ''name''))"
    if "k < length ps" for k
  proof -
    from that assms(3) have "validPalette (ps ! k)"
      by (simp add: list_all_length)
    then show ?thesis
      by (rule validPalette_field) simp
  qed
  show ?thesis
    by (simp add: createPaletteButtons_valid [OF assms] activeTheme_themed themed_frame
        paletteButton_def labels)
qed

theorem render_creates_one_control_per_palette_witness:
  "container (snd (createPaletteButtons (JArr [ocean, sunset]) page))
     = Some [Button (paletteButton ocean), Button (paletteButton sunset)]
   \<and> textContent (paletteButton ocean) = ''Ocean''
   \<and> textContent (paletteButton sunset) = ''Sunset''
   \<and> activeTheme (snd (createPaletteButtons (JArr [ocean, sunset]) page))
       = [Some ''#006994'', Some ''#0099cc'', Some ''#ffffff'', Some ''#f0f8ff'']"
proof -
  have there: "container page = Some [Paragraph ''hint'' ''Loading palettes'']"
    by (simp add: page_def)
  have some: "[ocean, sunset] \<noteq> []"
    by simp
  have valid: "list_all validPalette [ocean, sunset]"
    by (simp add: validPalette_def ocean_def sunset_def isString_def)
  note run = render_creates_one_control_per_palette [OF there some valid]
  have children: "container (snd (createPaletteButtons (JArr [ocean, sunset]) page))
      = Some [Button (paletteButton ocean), Button (paletteButton sunset)]"
    using run by auto
  have theme: "activeTheme (snd (createPaletteButtons (JArr [ocean, sunset]) page)) = paletteTheme ocean"
    using run by simp
  have labels: "textContent (paletteButton ocean) = ''Ocean''"
      "textContent (paletteButton sunset) = ''Sunset''"
    by (simp_all add: paletteButton_def stringField_def ocean_def sunset_def)
  have colours: "paletteTheme ocean
      = [Some ''#006994'', Some ''#0099cc'', Some ''#ffffff'', Some ''#f0f8ff'']"
    by (simp add: paletteTheme_def stringField_def declared_def ocean_def)
  show ?thesis
    using children theme labels colours by simp
qed

lemma click_paletteButton: "click (paletteButton p) w = applyPalette p w"
  by (simp add: click_def paletteButton_def)

text \<open>
  C4. On a page that has the container, for every sequence \<open>ps\<close> of structurally valid
  palettes and every index \<open>k < length ps\<close>, the \<open>k\<close>-th child left by
  \<open>createPaletteButtons\<close> is a button whose activation, in any state \<open>w'\<close> at all, is
  \<open>applyPalette (ps ! k)\<close>: it returns normally, the active theme becomes the theme of
  \<open>ps ! k\<close> whatever it was, and no other style variable changes. In particular this
  holds in the state left by any later call of \<open>createPaletteButtons\<close>: the button keeps
  the palette it captured when it was built.
\<close>

theorem activating_control_applies_its_palette:
  assumes "container w = Some old" and "list_all validPalette ps" and "k < length ps"
  shows "\<exists>children b.
           container (snd (createPaletteButtons (JArr ps) w)) = Some children
         \<and> children ! k = Button b
         \<and> (\<forall>w'. click b w' = applyPalette (ps ! k) w'
                \<and> fst (click b w') = Inr ()
                \<and> activeTheme (snd (click b w')) = paletteTheme (ps ! k)
                \<and> (\<forall>v. v \<notin> set themeVariables \<longrightarrow> rootStyle (snd (click b w')) v = rootStyle w' v))
         \<and> (\<forall>later. activeTheme (snd (click b (snd (createPaletteButtons later
                        (snd (createPaletteButtons (JArr ps) w))))))
                = paletteTheme (ps ! k))"
proof -
  from assms(3) have some: "ps \<noteq> []"
    by auto
  from assms(2,3) have valid: "validPalette (ps ! k)"
    by (simp add: list_all_length)
  have run: "click (paletteButton (ps ! k)) w' = (Inr (), themed (ps ! k) w')" for w'
    using valid by (simp add: click_paletteButton applyPalette_themed)
  have direct: "applyPalette (ps ! k) w' = (Inr (), themed (ps ! k) w')" for w'
    using valid by (simp add: applyPalette_themed)
  have children: "container (snd (createPaletteButtons (JArr ps) w))
      = Some (map (\<lambda>p. Button (paletteButton p)) ps)"
    by (simp add: createPaletteButtons_valid [OF assms(1) some assms(2)] themed_frame)
  have kth: "map (\<lambda>p. Button (paletteButton p)) ps ! k = Button (paletteButton (ps ! k))"
    using assms(3) by simp
  show ?thesis
    using children kth by (simp add: run direct activeTheme_themed themed_frame)
qed

theorem activating_control_applies_its_palette_witness:
  "\<exists>children b.
      container (snd (createPaletteButtons (JArr [ocean, sunset]) page)) = Some children
    \<and> children ! 1 = Button b
    \<and> activeTheme (snd (click b page))
        = [Some ''#ff4500'', Some ''#ffa500'', Some ''#222222'', Some ''#fff5ee'']
    \<and> activeTheme (snd (click b (snd (createPaletteButtons (JArr [ocean])
          (snd (createPaletteButtons (JArr [ocean, sunset]) page))))))
        = [Some ''#ff4500'', Some ''#ffa500'', Some ''#222222'', Some ''#fff5ee'']"
proof -
  have there: "container page = Some [Paragraph ''hint'' ''Loading palettes'']"
    by (simp add: page_def)
  have valid: "list_all validPalette [ocean, sunset]"
    by (simp add: validPalette_def ocean_def sunset_def isString_def)
  have inside: "1 < length [ocean, sunset]"
    by simp
  have colours: "paletteTheme ([ocean, sunset] ! 1)
      = [Some ''#ff4500'', Some ''#ffa500'', Some ''#222222'', Some ''#fff5ee'']"
    by (simp add: paletteTheme_def stringField_def declared_def sunset_def)
  from activating_control_applies_its_palette [OF there valid inside]
  show ?thesis
    unfolding colours by blast
qed

text \<open>
  C7. \<open>createPaletteButtons\<close> on the empty sequence returns normally and leaves the
  root style, hence the active theme, as it was. Where the page has the container, the
  state it leaves is the given one with the container emptied: no button is created.
  Where the page has none, there is still none.
\<close>

theorem render_empty_sequence:
  "fst (createPaletteButtons (JArr []) w) = Inr ()
   \<and> rootStyle (snd (createPaletteButtons (JArr []) w)) = rootStyle w
   \<and> activeTheme (snd (createPaletteButtons (JArr []) w)) = activeTheme w
   \<and> (\<forall>old. container w = Some old \<longrightarrow>
          createPaletteButtons (JArr []) w = (Inr (), w\<lparr>container := Some []\<rparr>))
   \<and> (container w = None \<longrightarrow> container (snd (createPaletteButtons (JArr []) w)) = None)"
proof (cases "container w")
  case None
  then show ?thesis
    by (simp add: createPaletteButtons_missing consoleWrite_def activeTheme_def)
next
  case (Some old)
  then show ?thesis
    by (simp add: createPaletteButtons_empty activeTheme_def)
qed

theorem render_empty_sequence_witness:
  "createPaletteButtons (JArr []) page = (Inr (), page\<lparr>container := Some []\<rparr>)
   \<and> activeTheme (snd (createPaletteButtons (JArr []) page))
       = [Some ''#000000'', Some ''#111111'', Some ''#eeeeee'', Some ''#ffffff'']"
proof -
  have there: "container page = Some [Paragraph ''hint'' ''Loading palettes'']"
    by (simp add: page_def)
  have theme: "activeTheme page
      = [Some ''#000000'', Some ''#111111'', Some ''#eeeeee'', Some ''#ffffff'']"
    by (simp add: activeTheme_def themeVariables_def page_def)
  note run = render_empty_sequence [of page]
  have result: "createPaletteButtons (JArr []) page = (Inr (), page\<lparr>container := Some []\<rparr>)"
    using run there by blast
  have kept: "activeTheme (snd (createPaletteButtons (JArr []) page)) = activeTheme page"
    using run by blast
  show ?thesis
    using result kept theme by simp
qed

text \<open>
  C8. For every value \<open>palettes\<close> (every palette sequence among them) and every state,
  calling \<open>createPaletteButtons\<close> a second time on the state the first call left gives
  the same children of the container, the same root style, hence the same active theme,
  and the same outcome as the first call alone. (The console is not the same: the second
  call writes again.)
\<close>

theorem render_idempotent:
  "fst (createPaletteButtons palettes (snd (createPaletteButtons palettes w)))
     = fst (createPaletteButtons palettes w)
   \<and> container (snd (createPaletteButtons palettes (snd (createPaletteButtons palettes w))))
     = container (snd (createPaletteButtons palettes w))
   \<and> rootStyle (snd (createPaletteButtons palettes (snd (createPaletteButtons palettes w))))
     = rootStyle (snd (createPaletteButtons palettes w))
   \<and> activeTheme (snd (createPaletteButtons palettes (snd (createPaletteButtons palettes w))))
     = activeTheme (snd (createPaletteButtons palettes w))"
proof (cases "container w")
  case None
  have first: "createPaletteButtons palettes w
      = (Inr (), consoleWrite (ContainerNotFound BUTTONS_CONTAINER_ID) w)"
    using None by (rule createPaletteButtons_missing)
  have still: "container (consoleWrite (ContainerNotFound BUTTONS_CONTAINER_ID) w) = None"
    using None by (simp add: consoleWrite_def)
  show ?thesis
    by (simp add: first createPaletteButtons_missing [OF still] activeTheme_def)
      (simp add: consoleWrite_def)
next
  case (Some old)
  from createPaletteButtons_present [of palettes] obtain out cs U L
    where run: "\<forall>w. container w \<noteq> None \<longrightarrow>
        createPaletteButtons palettes w =
          (out, w\<lparr>container := Some cs, rootStyle := overridden U (rootStyle w),
                   console := console w @ L\<rparr>)"
    by blast
  let ?once = "w\<lparr>container := Some cs, rootStyle := overridden U (rootStyle w),
      console := console w @ L\<rparr>"
  have first: "createPaletteButtons palettes w = (out, ?once)"
    using run Some by simp
  have "container ?once \<noteq> None"
    by simp
  with run have again: "createPaletteButtons palettes ?once =
      (out, ?once\<lparr>container := Some cs, rootStyle := overridden U (rootStyle ?once),
                    console := console ?once @ L\<rparr>)"
    by blast
  show ?thesis
    unfolding first snd_conv fst_conv again by (simp add: activeTheme_def overridden_twice)
qed

theorem render_idempotent_witness:
  "container (snd (createPaletteButtons (JArr [ocean, sunset])
       (snd (createPaletteButtons (JArr [ocean, sunset]) page))))
     = Some [Button (paletteButton ocean), Button (paletteButton sunset)]
   \<and> activeTheme (snd (createPaletteButtons (JArr [ocean, sunset])
       (snd (createPaletteButtons (JArr [ocean, sunset]) page))))
     = [Some ''#006994'', Some ''#0099cc'', Some ''#ffffff'', Some ''#f0f8ff'']"
proof -
  have there: "container page = Some [Paragraph ''hint'' ''Loading palettes'']"
    by (simp add: page_def)
  have valid: "list_all validPalette [ocean, sunset]"
    by (simp add: validPalette_def ocean_def sunset_def isString_def)
  have once: "createPaletteButtons (JArr [ocean, sunset]) page
      = (Inr (), themed ([ocean, sunset] ! 0)
           (page\<lparr>container := Some (map (\<lambda>p. Button (paletteButton p)) [ocean, sunset])\<rparr>))"
    using there _ valid by (rule createPaletteButtons_valid) simp
  have children: "container (snd (createPaletteButtons (JArr [ocean, sunset]) page))
      = Some [Button (paletteButton ocean), Button (paletteButton sunset)]"
    by (simp add: once themed_frame)
  have theme: "activeTheme (snd (createPaletteButtons (JArr [ocean, sunset]) page))
      = [Some ''#006994'', Some ''#0099cc'', Some ''#ffffff'', Some ''#f0f8ff'']"
    by (simp add: once activeTheme_themed)
      (simp add: paletteTheme_def stringField_def declared_def ocean_def)
  note twice = render_idempotent [of "JArr [ocean, sunset]" page]
  show ?thesis
    using twice children theme by simp
qed

section \<open>Loading the palettes\<close>

lemma backoff_empty: "backoff i i = []"
  by (simp add: backoff_def)

lemma backoff_step:
  "i < k \<Longrightarrow> backoff i k = Fetched PALETTES_FILE # Waited (2 ^ i * 100) # backoff (Suc i) k"
  by (simp add: backoff_def upt_conv_Cons)

lemma fetchLoop_exit: "fetchLoop net maxRetries resp w = (Inr resp, w)"
  by (simp add: fetchLoop.simps)

lemma fetchLoop_rejected:
  "i < maxRetries \<Longrightarrow> net i = Rejected e \<Longrightarrow>
   fetchLoop net i resp w = (Inl e, record_event (Fetched PALETTES_FILE) w)"
  by (simp add: fetchLoop.simps [of net i])

lemma fetchLoop_ok:
  "i < maxRetries \<Longrightarrow> net i = Resolved r \<Longrightarrow> ok r \<Longrightarrow>
   fetchLoop net i resp w = (Inr (Some r), record_event (Fetched PALETTES_FILE) w)"
  by (simp add: fetchLoop.simps [of net i])

lemma fetchLoop_not_ok:
  "i < maxRetries \<Longrightarrow> net i = Resolved r \<Longrightarrow> \<not> ok r \<Longrightarrow>
   fetchLoop net i resp w =
     fetchLoop net (Suc i) (Some r)
       (record_event (Waited (2 ^ i * 100)) (record_event (Fetched PALETTES_FILE) w))"
  by (simp add: fetchLoop.simps [of net i])

lemma failsByStatus_response:
  "failsByStatus net j \<Longrightarrow> \<exists>r. net j = Resolved r \<and> \<not> ok r \<and> responseAt net j = Some r"
  by (cases "net j") (simp_all add: failsByStatus_def responseAt_def)

lemma fetchLoop_failing_run:
  assumes "i + n \<le> maxRetries"
    and "\<forall>j. i \<le> j \<and> j < i + n \<longrightarrow> failsByStatus net j"
  shows "fetchLoop net i resp w =
           fetchLoop net (i + n) (if n = 0 then resp else responseAt net (i + n - 1))
             (w\<lparr>timeline := timeline w @ backoff i (i + n)\<rparr>)"
  using assms
proof (induction n arbitrary: i resp w)
  case 0
  show ?case by (simp add: backoff_empty)
next
  case (Suc n)
  from Suc.prems have below: "i < maxRetries" and fails: "failsByStatus net i"
    by simp_all
  from failsByStatus_response [OF fails] obtain r
    where r: "net i = Resolved r" "\<not> ok r" "responseAt net i = Some r"
    by blast
  have rest: "Suc i + n \<le> maxRetries" "\<forall>j. Suc i \<le> j \<and> j < Suc i + n \<longrightarrow> failsByStatus net j"
    using Suc.prems by simp_all
  have events: "backoff i (Suc i + n)
      = Fetched PALETTES_FILE # Waited (2 ^ i * 100) # backoff (Suc i) (Suc i + n)"
    by (rule backoff_step) simp
  have step: "fetchLoop net i resp w =
      fetchLoop net (Suc i) (Some r)
        (record_event (Waited (2 ^ i * 100)) (record_event (Fetched PALETTES_FILE) w))"
    using below r(1,2) by (rule fetchLoop_not_ok)
  let ?w1 = "record_event (Waited (2 ^ i * 100)) (record_event (Fetched PALETTES_FILE) w)"
  have "fetchLoop net i resp w = fetchLoop net (Suc i) (Some r) ?w1"
    by (rule step)
  also have "\<dots> = fetchLoop net (Suc i + n)
      (if n = 0 then Some r else responseAt net (Suc i + n - 1))
      (?w1\<lparr>timeline := timeline ?w1 @ backoff (Suc i) (Suc i + n)\<rparr>)"
    using rest by (rule Suc.IH)
  also have "(if n = 0 then Some r else responseAt net (Suc i + n - 1))
      = responseAt net (i + Suc n - 1)"
    using r(3) by simp
  also have "?w1\<lparr>timeline := timeline ?w1 @ backoff (Suc i) (Suc i + n)\<rparr>
      = w\<lparr>timeline := timeline w @ backoff i (i + Suc n)\<rparr>"
    using events by (simp add: record_event_def)
  finally show ?case
    by simp
qed


lemma fetchLoop_all_fail:
  assumes "\<forall>j<maxRetries. failsByStatus net j"
  shows "fetchLoop net 0 None w =
           (Inr (responseAt net (maxRetries - 1)), w\<lparr>timeline := timeline w @ backoff 0 maxRetries\<rparr>)"
proof -
  have "fetchLoop net 0 None w =
      fetchLoop net (0 + maxRetries)
        (if maxRetries = 0 then None else responseAt net (0 + maxRetries - 1))
        (w\<lparr>timeline := timeline w @ backoff 0 (0 + maxRetries)\<rparr>)"
    using assms by (intro fetchLoop_failing_run) simp_all
  then show ?thesis
    by (simp add: fetchLoop_exit) (simp add: maxRetries_def)
qed

lemma fetchLoop_reaches:
  assumes "k < maxRetries" and "\<forall>j<k. failsByStatus net j"
  shows "fetchLoop net 0 None w =
           fetchLoop net k (if k = 0 then None else responseAt net (k - 1))
             (w\<lparr>timeline := timeline w @ backoff 0 k\<rparr>)"
proof -
  have "fetchLoop net 0 None w =
      fetchLoop net (0 + k) (if k = 0 then None else responseAt net (0 + k - 1))
        (w\<lparr>timeline := timeline w @ backoff 0 (0 + k)\<rparr>)"
    using assms by (intro fetchLoop_failing_run) simp_all
  then show ?thesis
    by simp
qed

lemma fetchLoop_rejected_at:
  assumes "k < maxRetries" and "\<forall>j<k. failsByStatus net j" and "net k = Rejected e"
  shows "fetchLoop net 0 None w =
           (Inl e, w\<lparr>timeline := timeline w @ backoff 0 k @ [Fetched PALETTES_FILE]\<rparr>)"
  by (simp add: fetchLoop_reaches [OF assms(1,2)] fetchLoop_rejected [where net = net and i = k, OF assms(1,3)] record_event_def)

lemma fetchLoop_ok_at:
  assumes "k < maxRetries" and "\<forall>j<k. failsByStatus net j" and "net k = Resolved r" and "ok r"
  shows "fetchLoop net 0 None w =
           (Inr (Some r), w\<lparr>timeline := timeline w @ backoff 0 k @ [Fetched PALETTES_FILE]\<rparr>)"
  by (simp add: fetchLoop_reaches [OF assms(1,2)] fetchLoop_ok [where net = net and i = k, OF assms(1,3,4)] record_event_def)

lemma attempts_append: "attempts (es @ fs) = attempts es + attempts fs"
  by (induction es rule: attempts.induct) simp_all

lemma waits_append: "waits (es @ fs) = waits es @ waits fs"
  by (induction es rule: waits.induct) simp_all

lemma attempts_backoff: "attempts (backoff i k) = k - i"
proof (induction "k - i" arbitrary: i)
  case 0
  then show ?case by (simp add: backoff_def)
next
  case (Suc d)
  then have "i < k" by simp
  with Suc show ?case by (simp add: backoff_step)
qed

lemma waits_backoff: "waits (backoff i k) = map (\<lambda>j. 2 ^ j * 100) [i..<k]"
proof (induction "k - i" arbitrary: i)
  case 0
  then show ?case by (simp add: backoff_def)
next
  case (Suc d)
  then have "i < k" by simp
  with Suc show ?case by (simp add: backoff_step upt_conv_Cons)
qed

lemma upt_3: "[0..<3] = [0, 1, 2]"
  by (simp add: upt_conv_Cons)

lemma waits_backoff_all: "waits (backoff 0 maxRetries) = [100, 200, 400]"
  by (simp add: waits_backoff maxRetries_def upt_3)

lemma catchBlock_eq:
  "catchBlock e w =
     (Inr (), w\<lparr>container := map_option (\<lambda>old. [errorMessage]) (container w),
                console := console w @ [LoadingError e]\<rparr>)"
  by (cases "container w") (simp_all add: catchBlock_def consoleWrite_def)

lemma tryBlock_all_fail:
  assumes "\<forall>j<maxRetries. failsByStatus net j"
  shows "\<exists>r. net (maxRetries - 1) = Resolved r \<and> \<not> ok r
           \<and> tryBlock net w =
               (Inl (FailedToFetch PALETTES_FILE maxRetries (status r) (statusText r)),
                w\<lparr>timeline := timeline w @ backoff 0 maxRetries\<rparr>)"
proof -
  have "failsByStatus net (maxRetries - 1)"
    using assms by (simp add: maxRetries_def)
  from failsByStatus_response [OF this] obtain r
    where r: "net (maxRetries - 1) = Resolved r" "\<not> ok r" "responseAt net (maxRetries - 1) = Some r"
    by blast
  have "tryBlock net w =
      (Inl (FailedToFetch PALETTES_FILE maxRetries (status r) (statusText r)),
       w\<lparr>timeline := timeline w @ backoff 0 maxRetries\<rparr>)"
    using r by (simp add: tryBlock_def fetchLoop_all_fail [OF assms])
  with r show ?thesis
    by blast
qed

lemma tryBlock_rejected_at:
  assumes "k < maxRetries" and "\<forall>j<k. failsByStatus net j" and "net k = Rejected e"
  shows "tryBlock net w =
           (Inl e, w\<lparr>timeline := timeline w @ backoff 0 k @ [Fetched PALETTES_FILE]\<rparr>)"
  by (simp add: tryBlock_def fetchLoop_rejected_at [OF assms])

lemma tryBlock_ok_at:
  assumes "k < maxRetries" and "\<forall>j<k. failsByStatus net j" and "net k = Resolved r" and "ok r"
  shows "tryBlock net w =
           (case json r of
              Inl e \<Rightarrow> (Inl e, w\<lparr>timeline := timeline w @ backoff 0 k @ [Fetched PALETTES_FILE]\<rparr>)
            | Inr palettes \<Rightarrow>
                createPaletteButtons palettes
                  (w\<lparr>timeline := timeline w @ backoff 0 k @ [Fetched PALETTES_FILE]\<rparr>))"
  using assms(4) by (simp add: tryBlock_def fetchLoop_ok_at [OF assms])

lemma initializeInterface_caught:
  assumes "tryBlock net w = (Inl e, w')"
  shows "initializeInterface net w =
           (Inr (), w'\<lparr>container := map_option (\<lambda>old. [errorMessage]) (container w'),
                        console := console w' @ [LoadingError e]\<rparr>)"
  by (simp add: initializeInterface_def assms catchBlock_eq)

text \<open>
  C5, as the code has it. Let three attempts be made and all fail: the first two by
  status, the third by status or by a rejection. Then the handler runs and writes the
  failure to the console, \<open>initializeInterface\<close> returns normally, a container that
  exists holds the error message as its only child, whatever it held before, the root
  style is unchanged, and three network calls have been made. The failure written is
  the error built at line 81, with the status and status text of the third response,
  when the third attempt failed by status; it is the rejection itself, which carries no
  status, when the third call was rejected.
\<close>

theorem three_failed_attempts_show_error_message:
  assumes "\<forall>j<maxRetries - 1. failsByStatus net j" and "attemptFails net (maxRetries - 1)"
  shows "fst (initializeInterface net w) = Inr ()
       \<and> console (snd (initializeInterface net w))
           = console w @ [LoadingError (reportedFailure (net (maxRetries - 1)))]
       \<and> (\<forall>r. net (maxRetries - 1) = Resolved r \<longrightarrow>
              reportedFailure (net (maxRetries - 1))
                = FailedToFetch PALETTES_FILE 3 (status r) (statusText r))
       \<and> (\<forall>e. net (maxRetries - 1) = Rejected e \<longrightarrow> reportedFailure (net (maxRetries - 1)) = e)
       \<and> container (snd (initializeInterface net w))
           = map_option (\<lambda>old. [errorMessage]) (container w)
       \<and> (\<forall>old. container w = Some old \<longrightarrow>
              container (snd (initializeInterface net w)) = Some [errorMessage])
       \<and> rootStyle (snd (initializeInterface net w)) = rootStyle w
       \<and> attempts (timeline (snd (initializeInterface net w))) = attempts (timeline w) + 3"
proof (cases "net (maxRetries - 1)")
  case (Rejected e)
  have last: "maxRetries - 1 < maxRetries"
    by (simp add: maxRetries_def)
  have failed: "tryBlock net w =
      (Inl e, w\<lparr>timeline := timeline w @ backoff 0 (maxRetries - 1) @ [Fetched PALETTES_FILE]\<rparr>)"
    using last assms(1) Rejected by (rule tryBlock_rejected_at)
  show ?thesis
    using Rejected
    by (simp add: initializeInterface_caught [OF failed] reportedFailure_def
        attempts_append attempts_backoff maxRetries_def)
next
  case (Resolved r)
  with assms(2) have "failsByStatus net (maxRetries - 1)"
    by (simp add: attemptFails_def failsByStatus_def)
  with assms(1) have all: "\<forall>j<maxRetries. failsByStatus net j"
    by (auto simp: less_Suc_eq maxRetries_def numeral_3_eq_3)
  from tryBlock_all_fail [OF all, of w] Resolved
  have failed: "tryBlock net w =
      (Inl (FailedToFetch PALETTES_FILE maxRetries (status r) (statusText r)),
       w\<lparr>timeline := timeline w @ backoff 0 maxRetries\<rparr>)"
    by auto
  show ?thesis
    using Resolved
    by (simp add: initializeInterface_caught [OF failed] reportedFailure_def
        attempts_append attempts_backoff maxRetries_def)
qed

theorem three_failed_attempts_show_error_message_witness:
  "fst (initializeInterface always_failing page) = Inr ()
   \<and> console (snd (initializeInterface always_failing page))
       = [LoadingError (FailedToFetch ''pallets.json'' 3 503 ''Service Unavailable'')]
   \<and> container (snd (initializeInterface always_failing page))
       = Some [Paragraph ''text-red-600 text-sm'' ''Error loading color palettes. Check console for details.'']
   \<and> attempts (timeline (snd (initializeInterface always_failing page))) = 3"
proof -
  have first: "\<forall>j<maxRetries - 1. failsByStatus always_failing j"
    by (simp add: failsByStatus_def always_failing_def notFound_def unavailable_def)
  have third: "always_failing (maxRetries - 1) = Resolved unavailable"
    by (simp add: always_failing_def maxRetries_def)
  have fails: "attemptFails always_failing (maxRetries - 1)"
    using third by (simp add: attemptFails_def unavailable_def)
  have before: "container page = Some [Paragraph ''hint'' ''Loading palettes'']"
      "console page = []" "timeline page = []"
    by (simp_all add: page_def)
  note run = three_failed_attempts_show_error_message [OF first fails, of page]
  have returned: "fst (initializeInterface always_failing page) = Inr ()"
    using run by blast
  have logged: "console (snd (initializeInterface always_failing page))
      = console page @ [LoadingError (reportedFailure (always_failing (maxRetries - 1)))]"
    using run by blast
  have carried: "reportedFailure (always_failing (maxRetries - 1))
      = FailedToFetch PALETTES_FILE 3 (status unavailable) (statusText unavailable)"
    using run third by blast
  have shown: "container (snd (initializeInterface always_failing page)) = Some [errorMessage]"
    using run before(1) by blast
  have made: "attempts (timeline (snd (initializeInterface always_failing page)))
      = attempts (timeline page) + 3"
    using run by blast
  show ?thesis
    using returned logged carried shown made before
    by (simp add: unavailable_def PALETTES_FILE_def errorMessage_def)
qed

text \<open>
  C5 as stated fails. On a network that answers 404 twice and then rejects the third
  call, three attempts are made and all fail, and the page shows the error message; but
  the failure that is reported is the rejection, and it carries no status.
\<close>

theorem third_attempt_rejected_counterexample:
  "failsByStatus refused_twice_then_dropped 0
   \<and> failsByStatus refused_twice_then_dropped 1
   \<and> refused_twice_then_dropped 2 = Rejected NetworkError
   \<and> attempts (timeline (snd (initializeInterface refused_twice_then_dropped page))) = 3
   \<and> console (snd (initializeInterface refused_twice_then_dropped page)) = [LoadingError NetworkError]
   \<and> container (snd (initializeInterface refused_twice_then_dropped page)) = Some [errorMessage]"
proof -
  have third: "2 < maxRetries"
    by (simp add: maxRetries_def)
  have fails: "\<forall>j<2. failsByStatus refused_twice_then_dropped j"
    by (simp add: failsByStatus_def refused_twice_then_dropped_def notFound_def)
  have dropped: "refused_twice_then_dropped 2 = Rejected NetworkError"
    by (simp add: refused_twice_then_dropped_def)
  have failed: "tryBlock refused_twice_then_dropped page
      = (Inl NetworkError, page\<lparr>timeline := timeline page @ backoff 0 2 @ [Fetched PALETTES_FILE]\<rparr>)"
    using third fails dropped by (rule tryBlock_rejected_at)
  have before: "container page = Some [Paragraph ''hint'' ''Loading palettes'']"
      "console page = []" "timeline page = []"
    by (simp_all add: page_def)
  show ?thesis
    using fails dropped before
    by (simp add: initializeInterface_caught [OF failed] attempts_append attempts_backoff)
qed

text \<open>
  C2. On a network whose three answers are 404, 404 and 503, the loader makes exactly
  three network calls, and it waits after each of them, the third included: the waits
  are 100, 200 and 400, the last one after the final attempt and before the error of
  line 81 is thrown.
\<close>

theorem loader_waits_after_the_last_attempt:
  "timeline (snd (initializeInterface always_failing page))
     = [Fetched ''pallets.json'', Waited 100, Fetched ''pallets.json'', Waited 200,
        Fetched ''pallets.json'', Waited 400]
   \<and> attempts (timeline (snd (initializeInterface always_failing page))) = 3
   \<and> waits (timeline (snd (initializeInterface always_failing page))) = [100, 200, 400]"
proof -
  have fails: "\<forall>j<maxRetries. failsByStatus always_failing j"
    by (simp add: failsByStatus_def always_failing_def notFound_def unavailable_def)
  from tryBlock_all_fail [OF fails, of page] obtain e
    where failed: "tryBlock always_failing page
        = (Inl e, page\<lparr>timeline := timeline page @ backoff 0 maxRetries\<rparr>)"
    by blast
  have events: "timeline page @ backoff 0 maxRetries
      = [Fetched ''pallets.json'', Waited 100, Fetched ''pallets.json'', Waited 200,
         Fetched ''pallets.json'', Waited 400]"
    by (simp add: page_def backoff_def maxRetries_def upt_3 PALETTES_FILE_def)
  show ?thesis
    by (simp add: initializeInterface_caught [OF failed] events)
qed


lemma initializeInterface_timeline:
  "timeline (snd (initializeInterface net w)) = timeline (snd (tryBlock net w))"
  by (cases "tryBlock net w")
    (auto simp: initializeInterface_def catchBlock_eq split: sum.splits)

lemma tryBlock_timeline_ok_at:
  assumes "k < maxRetries" and "\<forall>j<k. failsByStatus net j" and "net k = Resolved r" and "ok r"
  shows "timeline (snd (tryBlock net w)) = timeline w @ backoff 0 k @ [Fetched PALETTES_FILE]"
  by (simp add: tryBlock_ok_at [OF assms] createPaletteButtons_timeline split: sum.splits)

text \<open>
  C1, as the code has it. An attempt that fails with a transport error is not retried.
  When the attempt with index \<open>k < 3\<close> is rejected with \<open>e\<close>, the \<open>k\<close> attempts before
  it having failed by status, that attempt is the last network call (\<open>k + 1\<close> in all),
  no wait follows it (the waits are those of the \<open>k\<close> status failures), the handler
  runs with \<open>e\<close> and writes it to the console, and a container that exists then holds the
  error message as its only child. \<open>initializeInterface\<close> returns normally and the root
  style is unchanged.
\<close>

theorem transport_error_ends_the_loading:
  assumes "k < maxRetries" and "\<forall>j<k. failsByStatus net j" and "net k = Rejected e"
  shows "fst (initializeInterface net w) = Inr ()
       \<and> timeline (snd (initializeInterface net w))
           = timeline w @ backoff 0 k @ [Fetched PALETTES_FILE]
       \<and> attempts (timeline (snd (initializeInterface net w))) = attempts (timeline w) + k + 1
       \<and> waits (timeline (snd (initializeInterface net w)))
           = waits (timeline w) @ map (\<lambda>j. 2 ^ j * 100) [0..<k]
       \<and> console (snd (initializeInterface net w)) = console w @ [LoadingError e]
       \<and> container (snd (initializeInterface net w))
           = map_option (\<lambda>old. [errorMessage]) (container w)
       \<and> rootStyle (snd (initializeInterface net w)) = rootStyle w"
  by (simp add: initializeInterface_caught [OF tryBlock_rejected_at [OF assms]]
      attempts_append attempts_backoff waits_append waits_backoff)

theorem transport_error_ends_the_loading_witness:
  "attempts (timeline (snd (initializeInterface refused_then_dropped page))) = 2
   \<and> waits (timeline (snd (initializeInterface refused_then_dropped page))) = [100]
   \<and> console (snd (initializeInterface refused_then_dropped page)) = [LoadingError NetworkError]
   \<and> container (snd (initializeInterface refused_then_dropped page)) = Some [errorMessage]"
proof -
  have inside: "1 < maxRetries"
    by (simp add: maxRetries_def)
  have fails: "\<forall>j<1. failsByStatus refused_then_dropped j"
    by (simp add: failsByStatus_def refused_then_dropped_def unavailable_def)
  have dropped: "refused_then_dropped 1 = Rejected NetworkError"
    by (simp add: refused_then_dropped_def)
  have before: "container page = Some [Paragraph ''hint'' ''Loading palettes'']"
      "console page = []" "timeline page = []"
    by (simp_all add: page_def)
  note run = transport_error_ends_the_loading [OF inside fails dropped, of page]
  have made: "attempts (timeline (snd (initializeInterface refused_then_dropped page)))
      = attempts (timeline page) + 1 + 1"
    using run by blast
  have waited: "waits (timeline (snd (initializeInterface refused_then_dropped page)))
      = waits (timeline page) @ map (\<lambda>j. 2 ^ j * 100) [0..<1]"
    using run by blast
  have logged: "console (snd (initializeInterface refused_then_dropped page))
      = console page @ [LoadingError NetworkError]"
    using run by blast
  have shown: "container (snd (initializeInterface refused_then_dropped page))
      = map_option (\<lambda>old. [errorMessage]) (container page)"
    using run by blast
  show ?thesis
    using made waited logged shown before by simp
qed

text \<open>
  C1 as stated fails. Two networks answer the second attempt with the palettes; the
  first attempt is rejected on one and answered 503 on the other. After the rejection
  the loader makes no second attempt and the page shows the error message; after the 503
  it waits 100 and makes the second attempt.
\<close>

theorem transport_error_is_not_retried_counterexample:
  "dropped_then_found 0 = Rejected NetworkError
   \<and> dropped_then_found 1 = Resolved (found (JArr [ocean]))
   \<and> attempts (timeline (snd (initializeInterface dropped_then_found page))) = 1
   \<and> waits (timeline (snd (initializeInterface dropped_then_found page))) = []
   \<and> container (snd (initializeInterface dropped_then_found page)) = Some [errorMessage]
   \<and> refused_then_found 1 = Resolved (found (JArr [ocean]))
   \<and> attempts (timeline (snd (initializeInterface refused_then_found page))) = 2
   \<and> waits (timeline (snd (initializeInterface refused_then_found page))) = [100]"
proof -
  have first: "0 < maxRetries" and second: "1 < maxRetries"
    by (simp_all add: maxRetries_def)
  have none: "\<forall>j<0. failsByStatus dropped_then_found j"
    by simp
  have dropped: "dropped_then_found 0 = Rejected NetworkError"
    by (simp add: dropped_then_found_def)
  have failed: "tryBlock dropped_then_found page
      = (Inl NetworkError, page\<lparr>timeline := timeline page @ backoff 0 0 @ [Fetched PALETTES_FILE]\<rparr>)"
    using first none dropped by (rule tryBlock_rejected_at)
  have refused: "\<forall>j<1. failsByStatus refused_then_found j"
    by (simp add: failsByStatus_def refused_then_found_def unavailable_def)
  have answered: "refused_then_found 1 = Resolved (found (JArr [ocean]))" "ok (found (JArr [ocean]))"
    by (simp_all add: refused_then_found_def found_def)
  have retried: "timeline (snd (tryBlock refused_then_found page))
      = timeline page @ backoff 0 1 @ [Fetched PALETTES_FILE]"
    using second refused answered by (rule tryBlock_timeline_ok_at)
  have before: "container page = Some [Paragraph ''hint'' ''Loading palettes'']" "timeline page = []"
    by (simp_all add: page_def)
  show ?thesis
    using before answered(1) dropped
    by (simp add: initializeInterface_caught [OF failed] initializeInterface_timeline retried
        backoff_def dropped_then_found_def)
qed

text \<open>
  C6. When the first attempt returns a response that is ok, the loop ends with that
  response after one network call and no wait; nothing later adds to the timeline, so
  the whole run makes one network call and no wait. Where the body parses, the parsed
  value is what \<open>createPaletteButtons\<close> is called with, in the state right after that
  one call.
\<close>

theorem first_attempt_success_returns_at_once:
  assumes "net 0 = Resolved r" and "ok r"
  shows "fetchLoop net 0 None w = (Inr (Some r), w\<lparr>timeline := timeline w @ [Fetched PALETTES_FILE]\<rparr>)
       \<and> timeline (snd (initializeInterface net w)) = timeline w @ [Fetched PALETTES_FILE]
       \<and> attempts (timeline (snd (initializeInterface net w))) = attempts (timeline w) + 1
       \<and> waits (timeline (snd (initializeInterface net w))) = waits (timeline w)
       \<and> (\<forall>palettes. json r = Inr palettes \<longrightarrow>
              tryBlock net w =
                createPaletteButtons palettes (w\<lparr>timeline := timeline w @ [Fetched PALETTES_FILE]\<rparr>))"
proof -
  have first: "0 < maxRetries"
    by (simp add: maxRetries_def)
  have none: "\<forall>j<0. failsByStatus net j"
    by simp
  have loop: "fetchLoop net 0 None w
      = (Inr (Some r), w\<lparr>timeline := timeline w @ backoff 0 0 @ [Fetched PALETTES_FILE]\<rparr>)"
    using first none assms by (rule fetchLoop_ok_at)
  have events: "timeline (snd (tryBlock net w)) = timeline w @ backoff 0 0 @ [Fetched PALETTES_FILE]"
    using first none assms by (rule tryBlock_timeline_ok_at)
  have handed: "tryBlock net w =
      createPaletteButtons palettes (w\<lparr>timeline := timeline w @ [Fetched PALETTES_FILE]\<rparr>)"
    if "json r = Inr palettes" for palettes
    using that tryBlock_ok_at [OF first none assms, of w] by (simp add: backoff_empty)
  show ?thesis
    using loop events handed
    by (simp add: initializeInterface_timeline backoff_empty attempts_append waits_append)
qed

theorem first_attempt_success_returns_at_once_witness:
  "timeline (snd (initializeInterface found_at_once page)) = [Fetched ''pallets.json'']
   \<and> tryBlock found_at_once page
       = createPaletteButtons (JArr [ocean, sunset]) (page\<lparr>timeline := [Fetched ''pallets.json'']\<rparr>)"
proof -
  have answered: "found_at_once 0 = Resolved (found (JArr [ocean, sunset]))"
    by (simp add: found_at_once_def)
  have success: "ok (found (JArr [ocean, sunset]))"
    by (simp add: found_def)
  have parsed: "json (found (JArr [ocean, sunset])) = Inr (JArr [ocean, sunset])"
    by (simp add: found_def)
  have before: "timeline page = []"
    by (simp add: page_def)
  note run = first_attempt_success_returns_at_once [where net = found_at_once and w = page, OF answered success]
  have events: "timeline (snd (initializeInterface found_at_once page)) = timeline page @ [Fetched PALETTES_FILE]"
    using run by blast
  have handed: "tryBlock found_at_once page =
      createPaletteButtons (JArr [ocean, sunset]) (page\<lparr>timeline := timeline page @ [Fetched PALETTES_FILE]\<rparr>)"
    using run parsed by blast
  show ?thesis
    using events handed before by (simp add: PALETTES_FILE_def)
qed

text \<open>
  C10. Let the attempt with index \<open>k < 3\<close> return a response that is ok, the attempts
  before it having failed by status, and let a later step throw \<open>e\<close>: either
  \<^verbatim>\<open>json()\<close> rejects with \<open>e\<close>, or the body parses and \<open>createPaletteButtons\<close>
  throws \<open>e\<close> on the parsed value, while it builds the buttons or while it applies the
  first palette. Then the one handler runs with \<open>e\<close>, writing it to the console, and
  \<open>initializeInterface\<close> returns normally. A container that exists then holds the error
  message as its only child (buttons appended before the exception are gone), and no
  network call or wait follows. Style variables other than the four of the theme are
  unchanged, and the whole root style is unchanged when it was \<^verbatim>\<open>json()\<close> that
  failed; an exception while the first palette is applied can leave some of the four
  already set.
\<close>

theorem failure_after_successful_fetch_shows_error_message:
  assumes "k < maxRetries" and "\<forall>j<k. failsByStatus net j" and "net k = Resolved r" and "ok r"
    and "json r = Inl e
         \<or> (\<exists>palettes. json r = Inr palettes \<and> fst (createPaletteButtons palettes w) = Inl e)"
  shows "fst (initializeInterface net w) = Inr ()
       \<and> console (snd (initializeInterface net w)) = console w @ [LoadingError e]
       \<and> container (snd (initializeInterface net w))
           = map_option (\<lambda>old. [errorMessage]) (container w)
       \<and> (\<forall>old. container w = Some old \<longrightarrow>
              container (snd (initializeInterface net w)) = Some [errorMessage])
       \<and> (\<forall>v. v \<notin> set themeVariables \<longrightarrow>
              rootStyle (snd (initializeInterface net w)) v = rootStyle w v)
       \<and> (json r = Inl e \<longrightarrow> rootStyle (snd (initializeInterface net w)) = rootStyle w)
       \<and> timeline (snd (initializeInterface net w))
           = timeline w @ backoff 0 k @ [Fetched PALETTES_FILE]"
proof -
  let ?w1 = "w\<lparr>timeline := timeline w @ backoff 0 k @ [Fetched PALETTES_FILE]\<rparr>"
  note body = tryBlock_ok_at [OF assms(1-4), of w]
  from assms(5) show ?thesis
  proof
    assume "json r = Inl e"
    with body have failed: "tryBlock net w = (Inl e, ?w1)"
      by simp
    show ?thesis
      by (simp add: initializeInterface_caught [OF failed])
  next
    assume "\<exists>palettes. json r = Inr palettes \<and> fst (createPaletteButtons palettes w) = Inl e"
    then obtain palettes
      where parsed: "json r = Inr palettes" and thrown: "fst (createPaletteButtons palettes w) = Inl e"
      by blast
    from createPaletteButtons_present [of palettes] obtain out cs U L
      where run: "\<forall>w. container w \<noteq> None \<longrightarrow>
          createPaletteButtons palettes w =
            (out, w\<lparr>container := Some cs, rootStyle := overridden U (rootStyle w),
                     console := console w @ L\<rparr>)"
        and U: "dom U \<subseteq> set themeVariables" and L: "isl out \<longrightarrow> L = []"
      by blast
    from thrown have there: "container w \<noteq> None"
      by (cases "container w") (simp_all add: createPaletteButtons_missing)
    with run thrown have out: "out = Inl e"
      by simp
    with L have silent: "L = []"
      by simp
    from there have "container ?w1 \<noteq> None"
      by simp
    with run have "createPaletteButtons palettes ?w1 =
        (out, ?w1\<lparr>container := Some cs, rootStyle := overridden U (rootStyle ?w1),
                   console := console ?w1 @ L\<rparr>)"
      by blast
    with body parsed out silent have failed: "tryBlock net w =
        (Inl e, ?w1\<lparr>container := Some cs, rootStyle := overridden U (rootStyle w)\<rparr>)"
      by simp
    have frame: "overridden U (rootStyle w) v = rootStyle w v" if "v \<notin> set themeVariables" for v
      using that U by (intro overridden_frame) blast
    show ?thesis
      using there parsed by (auto simp: initializeInterface_caught [OF failed] frame)
  qed
qed

theorem failure_after_successful_fetch_shows_error_message_witness:
  "fst (createPaletteButtons (JArr [unconvertible]) page) = Inl TypeError
   \<and> fst (initializeInterface found_unconvertible page) = Inr ()
   \<and> console (snd (initializeInterface found_unconvertible page)) = [LoadingError TypeError]
   \<and> container (snd (initializeInterface found_unconvertible page)) = Some [errorMessage]
   \<and> rootStyle (snd (initializeInterface found_unconvertible page)) ''--font-size'' = Some ''16px''
   \<and> rootStyle page ''--color-primary'' = Some ''#000000''
   \<and> rootStyle (snd (initializeInterface found_unconvertible page)) ''--color-primary'' = Some ''#123456''
   \<and> rootStyle (snd (initializeInterface found_unconvertible page)) ''--color-secondary'' = Some ''#111111''"
proof -
  have inside: "1 < maxRetries"
    by (simp add: maxRetries_def)
  have fails: "\<forall>j<1. failsByStatus found_unconvertible j"
    by (simp add: failsByStatus_def found_unconvertible_def notFound_def)
  have answered: "found_unconvertible 1 = Resolved (found (JArr [unconvertible]))"
    by (simp add: found_unconvertible_def)
  have success: "ok (found (JArr [unconvertible]))"
    by (simp add: found_def)
  have there: "container page = Some [Paragraph ''hint'' ''Loading palettes'']"
    by (simp add: page_def)
  have button: "createButton unconvertible = Inr (paletteButton unconvertible)"
    by (simp add: createButton_def paletteButton_def stringField_def unconvertible_def
        nullableString_def nullToEmptyString_def)
  have applying: "fst (applyPalette unconvertible w) = Inl TypeError" for w
    by (simp add: applyPalette_def andThen_def setVariable_def setProperty_def
        nullToEmptyString_def unconvertible_def)
  have render: "fst (createPaletteButtons (JArr [unconvertible]) page) = Inl TypeError"
    by (simp add: createPaletteButtons_array [OF there] button applying)
  have thrown: "json (found (JArr [unconvertible])) = Inl TypeError
      \<or> (\<exists>palettes. json (found (JArr [unconvertible])) = Inr palettes
            \<and> fst (createPaletteButtons palettes page) = Inl TypeError)"
    by (simp add: found_def render)
  have before: "console page = []" "rootStyle page ''--font-size'' = Some ''16px''"
    by (simp_all add: page_def)
  have other: "''--font-size'' \<notin> set themeVariables"
    by (simp add: themeVariables_def)
  note run = failure_after_successful_fetch_shows_error_message
    [where net = found_unconvertible and k = 1 and w = page, OF inside fails answered success thrown]
  have returned: "fst (initializeInterface found_unconvertible page) = Inr ()"
    using run by blast
  have logged: "console (snd (initializeInterface found_unconvertible page))
      = console page @ [LoadingError TypeError]"
    using run by blast
  have shown: "container (snd (initializeInterface found_unconvertible page)) = Some [errorMessage]"
    using run there by blast
  have kept: "rootStyle (snd (initializeInterface found_unconvertible page)) ''--font-size''
      = rootStyle page ''--font-size''"
    using run other by blast
  let ?w1 = "page\<lparr>timeline := timeline page @ backoff 0 1 @ [Fetched PALETTES_FILE]\<rparr>"
  have partly: "applyPalette unconvertible w
      = (Inl TypeError, w\<lparr>rootStyle := (rootStyle w)(''--color-primary'' \<mapsto> ''#123456'')\<rparr>)" for w
    by (simp add: applyPalette_def andThen_def setVariable_def setProperty_def
        nullToEmptyString_def unconvertible_def)
  have rendered: "createPaletteButtons (JArr [unconvertible]) w
      = (Inl TypeError,
         w\<lparr>container := Some (builtButtons [unconvertible]),
            rootStyle := (rootStyle w)(''--color-primary'' \<mapsto> ''#123456'')\<rparr>)"
    if "container w = Some old" for w old
    by (simp add: createPaletteButtons_array [OF that] button partly)
  have there1: "container ?w1 = Some [Paragraph ''hint'' ''Loading palettes'']"
    by (simp add: page_def)
  have failed: "tryBlock found_unconvertible page
      = (Inl TypeError,
         ?w1\<lparr>container := Some (builtButtons [unconvertible]),
               rootStyle := (rootStyle ?w1)(''--color-primary'' \<mapsto> ''#123456'')\<rparr>)"
    using tryBlock_ok_at [OF inside fails answered success, of page] rendered [OF there1]
    by (simp add: found_def)
  have theme: "rootStyle page ''--color-primary'' = Some ''#000000''"
      "rootStyle (snd (initializeInterface found_unconvertible page)) ''--color-primary'' = Some ''#123456''"
      "rootStyle (snd (initializeInterface found_unconvertible page)) ''--color-secondary'' = Some ''#111111''"
    by (simp_all add: initializeInterface_caught [OF failed]) (simp_all add: page_def)
  show ?thesis
    using render returned logged shown kept before theme by simp
qed

end
